theory Spec2Isabelle
  imports Main
begin

section \<open>Exception classes of \<open>reframe.core.exceptions\<close>\<close>

text \<open>
  The classes the module defines or names, under their Python names, and \<open>OtherClass\<close>
  for any class the module does not name (a class of the caller's code, or another
  built-in), given by its name and its direct bases. Python allows several bases.
\<close>

datatype exc_class =
    BaseException
  | Exception
  | KeyboardInterrupt
  | OSError
  | ConnectionError
  | FileExistsError
  | FileNotFoundError
  | IsADirectoryError
  | NotADirectoryError
  | PermissionError
  | TimeoutError
  | TypeError
  | ValueError
  | ReframeBaseError
  | ReframeError
  | ReframeFatalError
  | ReframeSyntaxError
  | RegressionTestLoadError
  | NameConflictError
  | TaskExit
  | TaskDependencyError
  | AbortTaskError
  | ConfigError
  | LoggingError
  | EnvironError
  | SanityError
  | PerformanceError
  | PipelineError
  | ReframeForceExitError
  | StatisticsError
  | BuildSystemError
  | ContainerError
  | BuildError
  | SpawnedProcessError
  | SpawnedProcessTimeout
  | JobSchedulerError
  | JobError
  | JobBlockedError
  | JobNotStartedError
  | DependencyError
  | OtherClass string "exc_class list"

text \<open>The direct bases, as each \<open>class X(...)\<close> statement (or the interpreter) gives them.\<close>

fun bases :: "exc_class \<Rightarrow> exc_class list" where
  "bases BaseException = []"
| "bases Exception = [BaseException]"
| "bases KeyboardInterrupt = [BaseException]"
| "bases OSError = [Exception]"
| "bases ConnectionError = [OSError]"
| "bases FileExistsError = [OSError]"
| "bases FileNotFoundError = [OSError]"
| "bases IsADirectoryError = [OSError]"
| "bases NotADirectoryError = [OSError]"
| "bases PermissionError = [OSError]"
| "bases TimeoutError = [OSError]"
| "bases TypeError = [Exception]"
| "bases ValueError = [Exception]"
| "bases ReframeBaseError = [BaseException]"
| "bases ReframeError = [ReframeBaseError, Exception]"
| "bases ReframeFatalError = [ReframeBaseError]"
| "bases ReframeSyntaxError = [ReframeError]"
| "bases RegressionTestLoadError = [ReframeError]"
| "bases NameConflictError = [RegressionTestLoadError]"
| "bases TaskExit = [ReframeError]"
| "bases TaskDependencyError = [ReframeError]"
| "bases AbortTaskError = [ReframeError]"
| "bases ConfigError = [ReframeError]"
| "bases LoggingError = [ReframeError]"
| "bases EnvironError = [ReframeError]"
| "bases SanityError = [ReframeError]"
| "bases PerformanceError = [ReframeError]"
| "bases PipelineError = [ReframeError]"
| "bases ReframeForceExitError = [ReframeError]"
| "bases StatisticsError = [ReframeError]"
| "bases BuildSystemError = [ReframeError]"
| "bases ContainerError = [ReframeError]"
| "bases BuildError = [ReframeError]"
| "bases SpawnedProcessError = [ReframeError]"
| "bases SpawnedProcessTimeout = [SpawnedProcessError]"
| "bases JobSchedulerError = [ReframeError]"
| "bases JobError = [ReframeError]"
| "bases JobBlockedError = [JobError]"
| "bases JobNotStartedError = [JobError]"
| "bases DependencyError = [ReframeError]"
| "bases (OtherClass n bs) = bs"

text \<open>The height of a class in the hierarchy: every base lies strictly below its class.\<close>

fun rank :: "exc_class \<Rightarrow> nat" where
  "rank (OtherClass n bs) = Suc (sum_list (map rank bs))"
| "rank BaseException = 0"
| "rank Exception = 1"
| "rank KeyboardInterrupt = 1"
| "rank ReframeBaseError = 1"
| "rank OSError = 2"
| "rank TypeError = 2"
| "rank ValueError = 2"
| "rank ReframeError = 2"
| "rank ReframeFatalError = 2"
| "rank NameConflictError = 4"
| "rank SpawnedProcessTimeout = 4"
| "rank JobBlockedError = 4"
| "rank JobNotStartedError = 4"
| "rank c = 3"

text \<open>
  \<open>superclasses c\<close> lists \<open>c\<close> and everything it inherits from; \<open>issubclass\<close> and
  \<open>isinstance\<close> only ask for membership, so the order of the list does not matter.
\<close>

function superclasses :: "exc_class \<Rightarrow> exc_class list" where
  "superclasses c = c # concat (map superclasses (bases c))"
  by pat_completeness auto
termination
proof (relation "measure rank")
  show "wf (measure rank)" by simp
next
  fix c b
  assume b: "b \<in> set (bases c)"
  have le: "x \<in> set xs \<Longrightarrow> rank x \<le> sum_list (map rank xs)" for x xs
    by (induction xs) auto
  from b have "rank b < rank c"
    by (cases c) (auto dest: le)
  then show "(b, c) \<in> measure rank" by simp
qed

declare superclasses.simps [simp del]

definition issubclass :: "exc_class \<Rightarrow> exc_class \<Rightarrow> bool" where
  "issubclass c d = (d \<in> set (superclasses c))"

text \<open>\<open>cls.__name__\<close>.\<close>

fun class_name :: "exc_class \<Rightarrow> string" where
  "class_name BaseException = ''BaseException''"
| "class_name Exception = ''Exception''"
| "class_name KeyboardInterrupt = ''KeyboardInterrupt''"
| "class_name OSError = ''OSError''"
| "class_name ConnectionError = ''ConnectionError''"
| "class_name FileExistsError = ''FileExistsError''"
| "class_name FileNotFoundError = ''FileNotFoundError''"
| "class_name IsADirectoryError = ''IsADirectoryError''"
| "class_name NotADirectoryError = ''NotADirectoryError''"
| "class_name PermissionError = ''PermissionError''"
| "class_name TimeoutError = ''TimeoutError''"
| "class_name TypeError = ''TypeError''"
| "class_name ValueError = ''ValueError''"
| "class_name ReframeBaseError = ''ReframeBaseError''"
| "class_name ReframeError = ''ReframeError''"
| "class_name ReframeFatalError = ''ReframeFatalError''"
| "class_name ReframeSyntaxError = ''ReframeSyntaxError''"
| "class_name RegressionTestLoadError = ''RegressionTestLoadError''"
| "class_name NameConflictError = ''NameConflictError''"
| "class_name TaskExit = ''TaskExit''"
| "class_name TaskDependencyError = ''TaskDependencyError''"
| "class_name AbortTaskError = ''AbortTaskError''"
| "class_name ConfigError = ''ConfigError''"
| "class_name LoggingError = ''LoggingError''"
| "class_name EnvironError = ''EnvironError''"
| "class_name SanityError = ''SanityError''"
| "class_name PerformanceError = ''PerformanceError''"
| "class_name PipelineError = ''PipelineError''"
| "class_name ReframeForceExitError = ''ReframeForceExitError''"
| "class_name StatisticsError = ''StatisticsError''"
| "class_name BuildSystemError = ''BuildSystemError''"
| "class_name ContainerError = ''ContainerError''"
| "class_name BuildError = ''BuildError''"
| "class_name SpawnedProcessError = ''SpawnedProcessError''"
| "class_name SpawnedProcessTimeout = ''SpawnedProcessTimeout''"
| "class_name JobSchedulerError = ''JobSchedulerError''"
| "class_name JobError = ''JobError''"
| "class_name JobBlockedError = ''JobBlockedError''"
| "class_name JobNotStartedError = ''JobNotStartedError''"
| "class_name DependencyError = ''DependencyError''"
| "class_name (OtherClass n bs) = n"

section \<open>Exception values\<close>

text \<open>
  An exception instance: its class, \<open>args_str\<close> (what the interpreter's own
  \<open>BaseException.__str__\<close> gives for the arguments it was built with; read only
  for classes outside \<open>ReframeBaseError\<close>, which overrides the method), the
  \<open>_message\<close> attribute that \<open>ReframeBaseError\<close> keeps (\<open>None\<close> when it was
  built without arguments), and \<open>__cause__\<close>. The classes of \<open>OtherClass\<close>
  define no methods of their own.
\<close>

datatype exc =
  Exc (exc_class: exc_class) (args_str: string) (message: "string option") (cause: "exc option")

text \<open>\<open>isinstance(e, (C1, ..., Cn))\<close>.\<close>

definition isinstance :: "exc \<Rightarrow> exc_class list \<Rightarrow> bool" where
  "isinstance e cs = list_ex (issubclass (exc_class e)) cs"

subsection \<open>Strings\<close>

text \<open>\<open>sep.join(xs)\<close>.\<close>

fun join :: "string \<Rightarrow> string list \<Rightarrow> string" where
  "join sep [] = []"
| "join sep [x] = x"
| "join sep (x # y # ys) = x @ sep @ join sep (y # ys)"

text \<open>\<open>s.split(sep)\<close> for a separator of one character; the result is never empty.\<close>

fun py_split :: "char \<Rightarrow> string \<Rightarrow> string list" where
  "py_split sep [] = [[]]"
| "py_split sep (c # cs) =
     (if c = sep then [] # py_split sep cs
      else (case py_split sep cs of [] \<Rightarrow> [[c]] | w # ws \<Rightarrow> (c # w) # ws))"

text \<open>\<open>s.startswith(p)\<close>.\<close>

fun startswith :: "string \<Rightarrow> string \<Rightarrow> bool" where
  "startswith s [] = True"
| "startswith [] (p # ps) = False"
| "startswith (c # cs) (p # ps) = (c = p \<and> startswith cs ps)"

text \<open>\<open>str(n)\<close> for an integer.\<close>

fun str_nat :: "nat \<Rightarrow> string" where
  "str_nat n =
     (if n < 10 then [''0123456789'' ! n]
      else str_nat (n div 10) @ [''0123456789'' ! (n mod 10)])"

declare str_nat.simps [simp del]

definition str_int :: "int \<Rightarrow> string" where
  "str_int i = (if i < 0 then ''-'' @ str_nat (nat (- i)) else str_nat (nat i))"

text \<open>\<open>m or ''\<close> for an optional string.\<close>

definition or_empty :: "string option \<Rightarrow> string" where
  "or_empty m = (case m of None \<Rightarrow> [] | Some s \<Rightarrow> (if s = [] then [] else s))"

subsection \<open>\<open>ReframeBaseError.__str__\<close>\<close>

text \<open>
  \<open>str(e)\<close>: an instance of \<open>ReframeBaseError\<close> runs the method of the module,
  \<open>ret = self._message or ''\<close> followed by \<open>': ' + str(self.__cause__)\<close> when there
  is a cause; any other exception shows its arguments.
\<close>

fun str_exc :: "exc \<Rightarrow> string" where
  "str_exc (Exc c a m cs) =
     (if issubclass c ReframeBaseError
      then (let ret = or_empty m
            in case cs of None \<Rightarrow> ret | Some e \<Rightarrow> ret @ '': '' @ str_exc e)
      else a)"

subsection \<open>Constructors\<close>

text \<open>
  \<open>BuildError.__init__(self, stdout, stderr)\<close>: \<open>super().__init__()\<close> leaves
  \<open>_message\<close> at \<open>None\<close>, then the message is formatted from the two arguments. The
  format string opens each path with a backquote and closes it with an apostrophe
  (\<open>CHR 0x27\<close>).
\<close>

definition BuildError_init :: "string \<Rightarrow> string \<Rightarrow> exc" where
  "BuildError_init stdout stderr =
     Exc BuildError []
         (Some (''standard error can be found in `'' @ stderr @ [CHR 0x27] @ '', ''
                @ ''standard output can be found in `'' @ stdout @ [CHR 0x27]))
         None"

text \<open>
  \<open>SpawnedProcessError.__init__(self, args, stdout, stderr, exitcode)\<close>. The command
  comes as one string or as a sequence of words; the exit code is an integer, or
  \<open>None\<close> (which the subclass for timeouts passes).
\<close>

datatype cmd_args = ArgStr string | ArgList "string list"

record spawned_process_error =
  sp_exc :: exc
  sp_command :: string
  sp_stdout :: string
  sp_stderr :: string
  sp_exitcode :: "int option"

definition str_exitcode :: "int option \<Rightarrow> string" where
  "str_exitcode x = (case x of None \<Rightarrow> ''None'' | Some i \<Rightarrow> str_int i)"

text \<open>The list \<open>lines\<close> as the constructor builds it, one statement after the other.\<close>

definition spawned_lines :: "string \<Rightarrow> string \<Rightarrow> string \<Rightarrow> int option \<Rightarrow> string list" where
  "spawned_lines command stdout stderr exitcode =
     (let lines = [''command '' @ [CHR 0x27] @ command @ [CHR 0x27]
                   @ '' failed with exit code '' @ str_exitcode exitcode @ '':''];
          lines = lines @ [''=== STDOUT ===''];
          lines = (if stdout \<noteq> [] then lines @ [stdout] else lines);
          lines = lines @ [''=== STDERR ===''];
          lines = (if stderr \<noteq> [] then lines @ [stderr] else lines)
      in lines)"

definition SpawnedProcessError_init ::
  "cmd_args \<Rightarrow> string \<Rightarrow> string \<Rightarrow> int option \<Rightarrow> spawned_process_error" where
  "SpawnedProcessError_init args stdout stderr exitcode =
     (let command = (case args of ArgStr s \<Rightarrow> s | ArgList ws \<Rightarrow> join '' '' ws)
      in \<lparr>sp_exc = Exc SpawnedProcessError []
                       (Some (join ''\<newline>'' (spawned_lines command stdout stderr exitcode)))
                       None,
          sp_command = command, sp_stdout = stdout, sp_stderr = stderr,
          sp_exitcode = exitcode\<rparr>)"

section \<open>Frames and the environment\<close>

text \<open>
  What the module reads of a frame: the fields of \<open>inspect.FrameInfo\<close> it uses, and
  the \<open>__name__\<close> of the module \<open>inspect.getmodule\<close> finds for the frame (\<open>None\<close>
  when it finds none). \<open>filename\<close> is also the file name \<open>warnings.warn\<close> reads
  from the frame's code.
\<close>

record frame_info =
  filename :: string
  lineno :: int
  code_context :: "string list option"
  frame_module :: "string option"

text \<open>
  The third argument of \<open>user_frame\<close>, \<open>is_severe\<close> and \<open>what\<close>: any object.
  \<open>inspect.istraceback\<close> accepts it or not, and for a traceback
  \<open>inspect.getinnerframes\<close> lists the frames from the outermost to the innermost.
\<close>

datatype tb_arg = NotATraceback | Traceback "frame_info list"

text \<open>
  Library functions and values the module calls and does not define:
  \<open>os.path.relpath(path, start)\<close> past its test of the path, which may raise
  (\<open>Inl\<close>), \<open>sys.path[0]\<close> and \<open>reframe.utility.decamelize(s, delim)\<close>.
  \<open>os.sep\<close> is the POSIX one.
\<close>

record pyenv =
  relpath :: "string \<Rightarrow> string \<Rightarrow> exc + string"
  sys_path0 :: string
  decamelize :: "string \<Rightarrow> string \<Rightarrow> string"

definition os_sep :: char where
  "os_sep = CHR ''/''"

definition os_curdir :: string where
  "os_curdir = ''.''"

text \<open>
  \<open>os.path.relpath\<close> starts with \<open>if not path: raise ValueError("no path specified")\<close>:
  an empty path is refused before anything is computed.
\<close>

definition os_path_relpath :: "pyenv \<Rightarrow> string \<Rightarrow> string \<Rightarrow> exc + string" where
  "os_path_relpath env path start =
     (if path = [] then Inl (Exc ValueError ''no path specified'' None None)
      else relpath env path start)"

section \<open>\<open>user_frame\<close>\<close>

text \<open>
  The \<open>for\<close> loop of \<open>user_frame\<close>, over the reversed list of frames. A raised
  exception is the \<open>Inl\<close> of the result; one that \<open>os.path.relpath\<close> raises ends the
  loop and the function.
\<close>

fun user_frame_loop :: "pyenv \<Rightarrow> frame_info list \<Rightarrow> exc + frame_info option" where
  "user_frame_loop env [] = Inr None"
| "user_frame_loop env (finfo # rest) =
     (case os_path_relpath env (filename finfo) (sys_path0 env) of
        Inl err \<Rightarrow> Inl err
      | Inr rp \<Rightarrow>
          if hd (py_split os_sep rp) \<noteq> ''reframe'' then Inr (Some finfo)
          else user_frame_loop env rest)"

definition user_frame ::
  "pyenv \<Rightarrow> exc_class option \<Rightarrow> exc \<Rightarrow> tb_arg \<Rightarrow> exc + frame_info option" where
  "user_frame env exc_type exc_value tb =
     (case tb of
        NotATraceback \<Rightarrow>
          Inl (Exc ValueError ''could not retrieve frame: argument not a traceback'' None None)
      | Traceback finfos \<Rightarrow> user_frame_loop env (rev finfos))"

section \<open>\<open>is_severe\<close>\<close>

definition soft_errors :: "exc_class list" where
  "soft_errors = [ReframeError, ConnectionError, FileExistsError, FileNotFoundError,
                  IsADirectoryError, KeyboardInterrupt, NotADirectoryError, PermissionError,
                  TimeoutError]"

definition is_severe :: "pyenv \<Rightarrow> exc_class option \<Rightarrow> exc \<Rightarrow> tb_arg \<Rightarrow> exc + bool" where
  "is_severe env exc_type exc_value tb =
     (if isinstance exc_value soft_errors then Inr False
      else
        let type_error = isinstance exc_value [TypeError];
            value_error = isinstance exc_value [ValueError]
        in case user_frame env exc_type exc_value tb of
             Inl err \<Rightarrow> Inl err
           | Inr frame \<Rightarrow>
               if (type_error \<or> value_error) \<and> frame \<noteq> None then Inr False
               else Inr True)"

section \<open>\<open>what\<close>\<close>

text \<open>
  \<open>isinstance(exc_value, C) and frame\<close> is the frame itself when both hold (a
  \<open>FrameInfo\<close> is never falsy) and something falsy otherwise; \<open>a or b\<close> takes the
  first that is not falsy.
\<close>

definition py_and :: "bool \<Rightarrow> frame_info option \<Rightarrow> frame_info option" where
  "py_and b frame = (if b then frame else None)"

definition py_or :: "frame_info option \<Rightarrow> frame_info option \<Rightarrow> frame_info option" where
  "py_or a b = (case a of Some f \<Rightarrow> Some f | None \<Rightarrow> b)"

text \<open>\<open>type(exc_value.__cause__).__name__\<close>.\<close>

definition cause_type_name :: "exc \<Rightarrow> string" where
  "cause_type_name e =
     (case cause e of None \<Rightarrow> ''NoneType'' | Some c \<Rightarrow> class_name (exc_class c))"

text \<open>
  \<open>exc_type\<close> is a class or \<open>None\<close>. \<open>os.path.relpath(frame.filename)\<close> takes the
  working directory as its start and may raise; joining the lines of a frame whose
  \<open>code_context\<close> is \<open>None\<close> raises \<open>TypeError\<close>.
\<close>

definition what :: "pyenv \<Rightarrow> exc_class option \<Rightarrow> exc \<Rightarrow> tb_arg \<Rightarrow> exc + string" where
  "what env exc_type exc_value tb =
     (case exc_type of
        None \<Rightarrow> Inr []
      | Some t \<Rightarrow>
          let reason = decamelize env (class_name t) '' ''
          in case user_frame env exc_type exc_value tb of
               Inl err \<Rightarrow> Inl err
             | Inr frame \<Rightarrow>
                 let user_type_error = py_and (isinstance exc_value [TypeError]) frame;
                     user_value_error = py_and (isinstance exc_value [ValueError]) frame
                 in if isinstance exc_value [KeyboardInterrupt] then Inr ''cancelled by user''
                    else if isinstance exc_value [AbortTaskError]
                    then Inr (''aborted due to '' @ cause_type_name exc_value)
                    else (case py_or user_type_error user_value_error of
                            Some f \<Rightarrow>
                              (case os_path_relpath env (filename f) os_curdir of
                                 Inl err \<Rightarrow> Inl err
                               | Inr rp \<Rightarrow>
                                   (case code_context f of
                                      None \<Rightarrow>
                                        Inl (Exc TypeError ''can only join an iterable''
                                               None None)
                                    | Some ctx \<Rightarrow>
                                        Inr (reason @ '': '' @ rp @ '':''
                                             @ str_int (lineno f) @ '': ''
                                             @ str_exc exc_value @ ''\<newline>''
                                             @ concat ctx)))
                          | None \<Rightarrow>
                              (if str_exc exc_value \<noteq> []
                               then Inr (reason @ '': '' @ str_exc exc_value)
                               else Inr reason)))"

section \<open>\<open>user_deprecation_warning\<close>\<close>

text \<open>
  The function stands in \<open>reframe/core/warnings.py\<close> and, with the same body, in
  \<open>reframe/core/exceptions.py\<close>. \<open>inspect.stack()\<close> lists the frames from the
  running one (the function's own) outwards. The call of \<open>warnings.warn\<close> is the
  result.
\<close>

fun stack_level_loop :: "nat \<Rightarrow> frame_info list \<Rightarrow> nat" where
  "stack_level_loop stack_level [] = stack_level"
| "stack_level_loop stack_level (s # rest) =
     (case frame_module s of
        None \<Rightarrow> stack_level
      | Some name \<Rightarrow>
          if \<not> startswith name ''reframe'' then stack_level
          else stack_level_loop (stack_level + 1) rest)"

datatype warning_category = ReframeDeprecationWarning

record warn_call =
  warn_message :: string
  warn_category :: warning_category
  stacklevel :: nat

definition user_deprecation_warning :: "string \<Rightarrow> frame_info list \<Rightarrow> warn_call" where
  "user_deprecation_warning msg stack =
     \<lparr>warn_message = msg, warn_category = ReframeDeprecationWarning,
      stacklevel = stack_level_loop 1 stack\<rparr>"

subsection \<open>The frame \<open>warnings.warn\<close> reports\<close>

text \<open>\<open>sub in s\<close> for strings.\<close>

fun contains :: "string \<Rightarrow> string \<Rightarrow> bool" where
  "contains [] sub = (sub = [])"
| "contains (c # cs) sub = (startswith (c # cs) sub \<or> contains cs sub)"

text \<open>
  The library's \<open>_is_internal_frame\<close>: a frame of the import machinery, by its file
  name.
\<close>

definition is_internal_frame :: "frame_info \<Rightarrow> bool" where
  "is_internal_frame f =
     (contains (filename f) ''importlib'' \<and> contains (filename f) ''_bootstrap'')"

text \<open>
  The library's loop \<open>for x in range(stacklevel-1): frame = _next_external_frame(frame)\<close>,
  on a frame followed by the frames behind it: each step goes back one frame and then
  past every frame of the import machinery. Running off the stack gives \<open>None\<close>.
\<close>

fun warn_walk :: "nat \<Rightarrow> frame_info list \<Rightarrow> frame_info option" where
  "warn_walk n [] = None"
| "warn_walk 0 (f # back) = Some f"
| "warn_walk (Suc n) (f # back) = warn_walk n (dropWhile is_internal_frame back)"

text \<open>
  The frame a warning of level \<open>stacklevel\<close> is attributed to, for the stack as
  \<open>inspect.stack()\<close> lists it in the function that calls \<open>warnings.warn\<close>. With a
  level of at most 1, or when that function is itself a frame of the import machinery,
  the library counts every frame; otherwise it walks as above. \<open>None\<close> is the
  library's fallback when the level leads past the outermost frame: the pseudo-file
  \<open>sys\<close>, line 1.
\<close>

definition warn_frame :: "frame_info list \<Rightarrow> nat \<Rightarrow> frame_info option" where
  "warn_frame stack level =
     (case stack of
        [] \<Rightarrow> None
      | f # back \<Rightarrow>
          if level \<le> 1 \<or> is_internal_frame f
          then (if level - 1 < length stack then Some (stack ! (level - 1)) else None)
          else warn_walk (level - 1) stack)"

text \<open>The test of the loop: the frame's module is known and its name starts with \<open>reframe\<close>.\<close>

definition framework_module :: "frame_info \<Rightarrow> bool" where
  "framework_module s =
     (case frame_module s of None \<Rightarrow> False | Some name \<Rightarrow> startswith name ''reframe'')"

text \<open>
  What the docstring of \<open>user_deprecation_warning\<close> calls inside the framework: a
  frame of the \<open>reframe\<close> base module, that is of the package \<open>reframe\<close> or of one
  of its submodules.
\<close>

definition reframe_base_module :: "frame_info \<Rightarrow> bool" where
  "reframe_base_module s =
     (case frame_module s of
        None \<Rightarrow> False
      | Some name \<Rightarrow> name = ''reframe'' \<or> startswith name ''reframe.'')"

text \<open>
  The test of \<open>user_frame\<close>, when the relative path of the frame's file can be
  computed: its first component is \<open>reframe\<close> (\<open>framework_file\<close>) or is not
  (\<open>outside_file\<close>). Neither holds of a frame for which \<open>os.path.relpath\<close> raises.
\<close>

definition framework_file :: "pyenv \<Rightarrow> frame_info \<Rightarrow> bool" where
  "framework_file env finfo =
     (case os_path_relpath env (filename finfo) (sys_path0 env) of
        Inl err \<Rightarrow> False
      | Inr rp \<Rightarrow> hd (py_split os_sep rp) = ''reframe'')"

definition outside_file :: "pyenv \<Rightarrow> frame_info \<Rightarrow> bool" where
  "outside_file env finfo =
     (case os_path_relpath env (filename finfo) (sys_path0 env) of
        Inl err \<Rightarrow> False
      | Inr rp \<Rightarrow> hd (py_split os_sep rp) \<noteq> ''reframe'')"

section \<open>\<open>__str__\<close> on objects that refer to each other\<close>







section \<open>Reference descriptions and sample inputs\<close>

text \<open>
  The parts a rendered chain is made of: the own message of each
  \<open>ReframeBaseError\<close> along the chain of causes, down to the last cause or to the
  first cause of another class, which contributes its own text.
\<close>

fun rendered_parts :: "exc \<Rightarrow> string list" where
  "rendered_parts (Exc c a m cs) =
     (if issubclass c ReframeBaseError
      then or_empty m # (case cs of None \<Rightarrow> [] | Some e \<Rightarrow> rendered_parts e)
      else [a])"

text \<open>The sub-kinds of \<open>ReframeError\<close> the module defines.\<close>

definition soft_kinds :: "exc_class list" where
  "soft_kinds = [ReframeSyntaxError, RegressionTestLoadError, NameConflictError, TaskExit,
                 TaskDependencyError, AbortTaskError, ConfigError, LoggingError, EnvironError,
                 SanityError, PerformanceError, PipelineError, ReframeForceExitError,
                 StatisticsError, BuildSystemError, ContainerError, BuildError,
                 SpawnedProcessError, SpawnedProcessTimeout, JobSchedulerError, JobError,
                 JobBlockedError, JobNotStartedError, DependencyError]"

text \<open>The built-in conditions \<open>is_severe\<close> lists next to \<open>ReframeError\<close>.\<close>

definition os_level_conditions :: "exc_class list" where
  "os_level_conditions = [ConnectionError, FileExistsError, FileNotFoundError,
                          IsADirectoryError, KeyboardInterrupt, NotADirectoryError,
                          PermissionError, TimeoutError]"

text \<open>
  Sample inputs. In \<open>sample_env\<close> the file names are already relative to
  \<open>sys.path[0]\<close> and to the working directory.
\<close>

definition sample_env :: pyenv where
  "sample_env = \<lparr>relpath = (\<lambda>path start. Inr path), sys_path0 = ''/opt/rfm'',
                 decamelize = (\<lambda>s delim. s)\<rparr>"

definition framework_frame :: frame_info where
  "framework_frame = \<lparr>filename = ''reframe/core/pipeline.py'', lineno = 10,
                      code_context = Some [''    self.setup()''],
                      frame_module = Some ''reframe.core.pipeline''\<rparr>"

definition runtime_frame :: frame_info where
  "runtime_frame = \<lparr>filename = ''reframe/core/runtime.py'', lineno = 77,
                    code_context = Some [''    fn()''],
                    frame_module = Some ''reframe.core.runtime''\<rparr>"

definition warnings_frame :: frame_info where
  "warnings_frame = \<lparr>filename = ''reframe/core/warnings.py'', lineno = 68,
                     code_context = Some [''    warnings.warn(message, cat, stacklevel=n)''],
                     frame_module = Some ''reframe.core.warnings''\<rparr>"

definition caller_frame :: frame_info where
  "caller_frame = \<lparr>filename = ''checks/mytest.py'', lineno = 42,
                   code_context = Some [''    x = int(None)''],
                   frame_module = Some ''mytest''\<rparr>"

definition main_frame :: frame_info where
  "main_frame = \<lparr>filename = ''bin/launch.py'', lineno = 3,
                 code_context = Some [''main()''],
                 frame_module = Some ''__main__''\<rparr>"

text \<open>A frame of code compiled with an empty file name, as \<open>compile(src, '', 'exec')\<close> makes it.\<close>

definition nameless_frame :: frame_info where
  "nameless_frame = \<lparr>filename = [], lineno = 1, code_context = None,
                     frame_module = None\<rparr>"

text \<open>
  A frame of the caller's module \<open>reframe_ext.plugin\<close>, which is no part of the
  package \<open>reframe\<close>.
\<close>

definition plugin_frame :: frame_info where
  "plugin_frame = \<lparr>filename = ''checks/reframe_ext/plugin.py'', lineno = 7,
                   code_context = Some [''    old_api()''],
                   frame_module = Some ''reframe_ext.plugin''\<rparr>"

text \<open>
  A module of the framework that warns while it is imported, and frames of the
  import machinery that runs it, for which \<open>inspect.getmodule\<close> finds no module.
\<close>

definition imported_frame :: frame_info where
  "imported_frame = \<lparr>filename = ''reframe/utility/legacy.py'', lineno = 5,
                     code_context = Some [''user_deprecation_warning(msg)''],
                     frame_module = Some ''reframe.utility.legacy''\<rparr>"

definition bootstrap_frame :: frame_info where
  "bootstrap_frame = \<lparr>filename = ''<frozen importlib._bootstrap>'', lineno = 241,
                      code_context = None, frame_module = None\<rparr>"

definition bootstrap_external_frame :: frame_info where
  "bootstrap_external_frame = \<lparr>filename = ''<frozen importlib._bootstrap_external>'',
                               lineno = 940, code_context = None, frame_module = None\<rparr>"

text \<open>A class of the caller's code with two bases: \<open>class LateValue(TimeoutError, ValueError)\<close>.\<close>

definition LateValue :: exc_class where
  "LateValue = OtherClass ''LateValue'' [TimeoutError, ValueError]"




section \<open>Auxiliary facts\<close>

lemma isinstance_Cons:
  "isinstance e (c # cs) = (issubclass (exc_class e) c \<or> isinstance e cs)"
  by (simp add: isinstance_def)

lemma isinstance_Nil: "isinstance e [] = False"
  by (simp add: isinstance_def)

lemma soft_errors_split: "soft_errors = ReframeError # os_level_conditions"
  by (simp add: soft_errors_def os_level_conditions_def)

lemma or_empty_eq: "or_empty m = (case m of None \<Rightarrow> [] | Some s \<Rightarrow> s)"
  by (simp add: or_empty_def split: option.splits)

lemma rendered_parts_nonempty: "rendered_parts e \<noteq> []"
  by (cases e) simp

lemma join_Cons: "xs \<noteq> [] \<Longrightarrow> join sep (x # xs) = x @ sep @ join sep xs"
  by (cases xs) simp_all

lemma str_exc_join: "str_exc e = join '': '' (rendered_parts e)"
proof (induction e rule: str_exc.induct)
  case (1 c a m cs)
  show ?case
  proof (cases "issubclass c ReframeBaseError")
    case False
    then show ?thesis by simp
  next
    case True
    show ?thesis
    proof (cases cs)
      case None
      with True show ?thesis by simp
    next
      case (Some e)
      with True 1 have "str_exc e = join '': '' (rendered_parts e)" by simp
      with True Some show ?thesis
        by (simp add: join_Cons rendered_parts_nonempty)
    qed
  qed
qed

lemma py_split_nonempty: "py_split sep s \<noteq> []"
  by (induction s) (auto split: list.splits)

lemma user_frame_loop_none:
  "(\<forall>g\<in>set fs. framework_file env g) \<Longrightarrow> user_frame_loop env fs = Inr None"
  by (induction fs) (auto simp: framework_file_def split: sum.splits)

lemma user_frame_loop_first:
  "outside_file env f \<Longrightarrow> (\<forall>g\<in>set pre. framework_file env g)
   \<Longrightarrow> user_frame_loop env (pre @ f # post) = Inr (Some f)"
  by (induction pre) (auto simp: framework_file_def outside_file_def split: sum.splits)


lemma user_frame_loop_returns:
  "(\<forall>g\<in>set fs. framework_file env g \<or> outside_file env g)
   \<Longrightarrow> \<exists>r. user_frame_loop env fs = Inr r"
  by (induction fs) (auto simp: framework_file_def outside_file_def split: sum.splits)

lemma user_frame_all_framework:
  "(\<forall>g\<in>set fs. framework_file env g) \<Longrightarrow> user_frame env et ev (Traceback fs) = Inr None"
  by (simp add: user_frame_def user_frame_loop_none)

lemma user_frame_innermost_outside:
  "outside_file env f \<Longrightarrow> (\<forall>g\<in>set inner. framework_file env g)
   \<Longrightarrow> user_frame env et ev (Traceback (outer @ f # inner)) = Inr (Some f)"
  using user_frame_loop_first [of env f "rev inner" "rev outer"]
  by (simp add: user_frame_def)


lemma user_frame_returns:
  "(\<forall>g\<in>set fs. framework_file env g \<or> outside_file env g)
   \<Longrightarrow> \<exists>r. user_frame env et ev (Traceback fs) = Inr r"
  using user_frame_loop_returns [of "rev fs" env]
  by (simp add: user_frame_def)

lemma user_frame_not_traceback:
  "user_frame env et ev NotATraceback
   = Inl (Exc ValueError ''could not retrieve frame: argument not a traceback'' None None)"
  by (simp add: user_frame_def)

lemma what_cancelled:
  "isinstance ev [KeyboardInterrupt] \<Longrightarrow> user_frame env (Some t) ev tb = Inr frame
   \<Longrightarrow> what env (Some t) ev tb = Inr ''cancelled by user''"
  by (simp add: what_def Let_def)

lemma stack_level_loop_stops:
  "(\<forall>s\<in>set internal. framework_module s) \<Longrightarrow> \<not> framework_module caller
   \<Longrightarrow> stack_level_loop n (internal @ caller # outer) = n + length internal"
  by (induction internal arbitrary: n)
     (auto simp: framework_module_def split: option.splits)

lemma stack_level_loop_exhausted:
  "(\<forall>s\<in>set stack. framework_module s)
   \<Longrightarrow> stack_level_loop n stack = n + length stack"
  by (induction stack arbitrary: n)
     (auto simp: framework_module_def split: option.splits)



lemmas superclasses_eval = superclasses.simps [of BaseException]
  superclasses.simps [of Exception] superclasses.simps [of KeyboardInterrupt]
  superclasses.simps [of OSError] superclasses.simps [of ConnectionError]
  superclasses.simps [of FileExistsError] superclasses.simps [of FileNotFoundError]
  superclasses.simps [of IsADirectoryError] superclasses.simps [of NotADirectoryError]
  superclasses.simps [of PermissionError] superclasses.simps [of TimeoutError]
  superclasses.simps [of TypeError] superclasses.simps [of ValueError]
  superclasses.simps [of ReframeBaseError] superclasses.simps [of ReframeError]
  superclasses.simps [of ReframeFatalError] superclasses.simps [of ReframeSyntaxError]
  superclasses.simps [of RegressionTestLoadError] superclasses.simps [of NameConflictError]
  superclasses.simps [of TaskExit] superclasses.simps [of TaskDependencyError]
  superclasses.simps [of AbortTaskError] superclasses.simps [of ConfigError]
  superclasses.simps [of LoggingError] superclasses.simps [of EnvironError]
  superclasses.simps [of SanityError] superclasses.simps [of PerformanceError]
  superclasses.simps [of PipelineError] superclasses.simps [of ReframeForceExitError]
  superclasses.simps [of StatisticsError] superclasses.simps [of BuildSystemError]
  superclasses.simps [of ContainerError] superclasses.simps [of BuildError]
  superclasses.simps [of SpawnedProcessError] superclasses.simps [of SpawnedProcessTimeout]
  superclasses.simps [of JobSchedulerError] superclasses.simps [of JobError]
  superclasses.simps [of JobBlockedError] superclasses.simps [of JobNotStartedError]
  superclasses.simps [of DependencyError]
  superclasses.simps [where c = "OtherClass n bs" for n bs]

lemmas class_eval = issubclass_def isinstance_def superclasses_eval

lemma soft_kinds_all: "list_all (\<lambda>c. issubclass c ReframeError) soft_kinds"
  by (simp add: soft_kinds_def class_eval)

lemma soft_kinds_subclass: "c \<in> set soft_kinds \<Longrightarrow> issubclass c ReframeError"
  using soft_kinds_all by (simp add: list_all_iff)

lemmas frame_eval = framework_file_def outside_file_def os_path_relpath_def
  framework_module_def reframe_base_module_def is_internal_frame_def
  sample_env_def os_sep_def
  framework_frame_def runtime_frame_def warnings_frame_def caller_frame_def main_frame_def
  nameless_frame_def plugin_frame_def imported_frame_def bootstrap_frame_def
  bootstrap_external_frame_def

section \<open>The claims\<close>

subsection \<open>C2: rendering a chain of causes\<close>

text \<open>
  C2. For every error (an instance of \<open>ReframeBaseError\<close>), \<open>str\<close> returns the
  error's own message, the empty string when the message is absent, and when a cause is
  present it appends \<open>": "\<close> and the rendering of the cause. An error with no message
  and no cause renders as the empty string. To any depth, the rendering is the parts of
  the chain joined by \<open>": "\<close>.
\<close>

theorem render_message_then_cause:
  "(issubclass c ReframeBaseError \<longrightarrow>
      str_exc (Exc c a m cs) =
        (case m of None \<Rightarrow> [] | Some s \<Rightarrow> s)
        @ (case cs of None \<Rightarrow> [] | Some d \<Rightarrow> '': '' @ str_exc d))
   \<and> (issubclass c ReframeBaseError \<longrightarrow> str_exc (Exc c a None None) = [])
   \<and> str_exc e = join '': '' (rendered_parts e)"
  by (simp add: or_empty_eq str_exc_join [symmetric] split: option.splits)

theorem render_message_then_cause_witness:
  "issubclass ReframeError ReframeBaseError
   \<and> str_exc (Exc ReframeError [] (Some ''error message 2'')
               (Some (Exc ReframeError [] (Some ''error message 1'') None)))
     = ''error message 2: error message 1''
   \<and> str_exc (Exc ReframeError [] None None) = []"
  using render_message_then_cause [of ReframeError "[]" "Some ''error message 2''"
      "Some (Exc ReframeError [] (Some ''error message 1'') None)"
      "Exc ReframeError [] (Some ''error message 1'') None"]
  by (simp add: class_eval or_empty_def)

subsection \<open>C7: a cause that refers to the error itself\<close>



subsection \<open>C3: \<open>user_frame\<close>\<close>




subsection \<open>C4: the errors \<open>is_severe\<close> lists as soft\<close>

text \<open>
  C4. For every instance of \<open>ReframeError\<close> (every sub-kind the module defines is
  one) and for every instance of the listed built-in conditions, \<open>is_severe\<close> returns
  \<open>False\<close>, whatever the third argument is, a traceback or not.
\<close>

theorem soft_errors_not_severe:
  "(isinstance ev [ReframeError] \<or> isinstance ev os_level_conditions
      \<longrightarrow> is_severe env et ev tb = Inr False)
   \<and> (exc_class ev \<in> set soft_kinds \<longrightarrow> isinstance ev [ReframeError])"
  by (simp add: is_severe_def soft_errors_split isinstance_Cons isinstance_Nil
        soft_kinds_subclass)

theorem soft_errors_not_severe_witness:
  "isinstance (Exc KeyboardInterrupt [] None None) os_level_conditions
   \<and> is_severe sample_env (Some KeyboardInterrupt) (Exc KeyboardInterrupt [] None None)
        NotATraceback = Inr False
   \<and> exc_class (BuildError_init ''out.txt'' ''err.txt'') \<in> set soft_kinds
   \<and> isinstance (BuildError_init ''out.txt'' ''err.txt'') [ReframeError]"
  using soft_errors_not_severe [of "Exc KeyboardInterrupt [] None None" sample_env
      "Some KeyboardInterrupt" NotATraceback]
    soft_errors_not_severe [of "BuildError_init ''out.txt'' ''err.txt''"]
  by (simp add: os_level_conditions_def soft_kinds_def BuildError_init_def class_eval)

subsection \<open>C10: \<open>is_severe\<close> without a traceback\<close>

text \<open>
  C10. For every error that is neither a \<open>ReframeError\<close> nor one of the listed
  built-in conditions (a \<open>ReframeFatalError\<close> for one), \<open>is_severe\<close> called with a
  third argument that is not a traceback raises the \<open>ValueError\<close> of \<open>user_frame\<close>
  and returns no verdict.
\<close>

theorem is_severe_needs_traceback:
  "\<not> isinstance ev [ReframeError] \<and> \<not> isinstance ev os_level_conditions
   \<longrightarrow> is_severe env et ev NotATraceback
       = Inl (Exc ValueError ''could not retrieve frame: argument not a traceback'' None None)"
  by (simp add: is_severe_def soft_errors_split isinstance_Cons isinstance_Nil
        user_frame_not_traceback)

theorem is_severe_needs_traceback_witness:
  "\<not> isinstance (Exc ReframeFatalError [] (Some ''fatal'') None) [ReframeError]
   \<and> \<not> isinstance (Exc ReframeFatalError [] (Some ''fatal'') None) os_level_conditions
   \<and> is_severe sample_env (Some ReframeFatalError)
        (Exc ReframeFatalError [] (Some ''fatal'') None) NotATraceback
       = Inl (Exc ValueError ''could not retrieve frame: argument not a traceback'' None None)"
  using is_severe_needs_traceback [of "Exc ReframeFatalError [] (Some ''fatal'') None"
      sample_env "Some ReframeFatalError"]
  by (simp add: os_level_conditions_def class_eval)

subsection \<open>C1: type and value errors\<close>

text \<open>
  C1, as the code has it. For every instance of \<open>TypeError\<close> or \<open>ValueError\<close>
  that is neither a \<open>ReframeError\<close> nor one of the listed built-in conditions,
  \<open>is_severe\<close> returns \<open>False\<close> exactly when \<open>user_frame\<close> finds a frame outside the
  framework: \<open>False\<close> when the innermost frame whose path lies outside the framework is
  \<open>f\<close>, and \<open>True\<close> for the same error when the traceback has framework frames only.
  When \<open>user_frame\<close> raises, \<open>is_severe\<close> raises the same exception.
\<close>

theorem type_value_error_severity:
  "isinstance ev [TypeError, ValueError] \<and> \<not> isinstance ev [ReframeError]
     \<and> \<not> isinstance ev os_level_conditions
   \<longrightarrow> (is_severe env et ev tb = Inr False
          \<longleftrightarrow> (\<exists>f. user_frame env et ev tb = Inr (Some f)))
       \<and> (outside_file env f \<and> (\<forall>g\<in>set inner. framework_file env g)
            \<longrightarrow> is_severe env et ev (Traceback (outer @ f # inner)) = Inr False)
       \<and> ((\<forall>g\<in>set fs. framework_file env g)
            \<longrightarrow> is_severe env et ev (Traceback fs) = Inr True)
       \<and> (user_frame env et ev tb = Inl err \<longrightarrow> is_severe env et ev tb = Inl err)"
proof (intro impI, elim conjE)
  assume tv: "isinstance ev [TypeError, ValueError]"
    and nr: "\<not> isinstance ev [ReframeError]"
    and no: "\<not> isinstance ev os_level_conditions"
  from nr no have ns: "\<not> isinstance ev soft_errors"
    by (simp add: soft_errors_split isinstance_Cons isinstance_Nil)
  from tv have tv': "isinstance ev [TypeError] \<or> isinstance ev [ValueError]"
    by (simp add: isinstance_Cons isinstance_Nil)
  have iff: "is_severe env et ev tb = Inr False
             \<longleftrightarrow> (\<exists>f. user_frame env et ev tb = Inr (Some f))"
    using ns tv' by (auto simp: is_severe_def split: sum.splits)
  have outside: "outside_file env f \<and> (\<forall>g\<in>set inner. framework_file env g)
                 \<longrightarrow> is_severe env et ev (Traceback (outer @ f # inner)) = Inr False"
    using ns tv' by (auto simp: is_severe_def user_frame_innermost_outside)
  have inside: "(\<forall>g\<in>set fs. framework_file env g)
                \<longrightarrow> is_severe env et ev (Traceback fs) = Inr True"
    using ns by (auto simp: is_severe_def user_frame_all_framework)
  have raises: "user_frame env et ev tb = Inl err \<longrightarrow> is_severe env et ev tb = Inl err"
    using ns by (simp add: is_severe_def)
  from iff outside inside raises
  show "(is_severe env et ev tb = Inr False
          \<longleftrightarrow> (\<exists>f. user_frame env et ev tb = Inr (Some f)))
       \<and> (outside_file env f \<and> (\<forall>g\<in>set inner. framework_file env g)
            \<longrightarrow> is_severe env et ev (Traceback (outer @ f # inner)) = Inr False)
       \<and> ((\<forall>g\<in>set fs. framework_file env g)
            \<longrightarrow> is_severe env et ev (Traceback fs) = Inr True)
       \<and> (user_frame env et ev tb = Inl err \<longrightarrow> is_severe env et ev tb = Inl err)"
    by blast
qed

theorem type_value_error_severity_witness:
  "isinstance (Exc TypeError ''bad operand'' None None) [TypeError, ValueError]
   \<and> \<not> isinstance (Exc TypeError ''bad operand'' None None) [ReframeError]
   \<and> \<not> isinstance (Exc TypeError ''bad operand'' None None) os_level_conditions
   \<and> outside_file sample_env caller_frame
   \<and> framework_file sample_env framework_frame
   \<and> is_severe sample_env (Some TypeError) (Exc TypeError ''bad operand'' None None)
        (Traceback ([main_frame] @ caller_frame # [framework_frame])) = Inr False
   \<and> is_severe sample_env (Some TypeError) (Exc TypeError ''bad operand'' None None)
        (Traceback [framework_frame]) = Inr True
   \<and> is_severe sample_env (Some TypeError) (Exc TypeError ''bad operand'' None None)
        NotATraceback
       = Inl (Exc ValueError ''could not retrieve frame: argument not a traceback'' None None)"
  using type_value_error_severity [of "Exc TypeError ''bad operand'' None None" sample_env
      "Some TypeError" NotATraceback caller_frame "[framework_frame]" "[main_frame]"
      "[framework_frame]"
      "Exc ValueError ''could not retrieve frame: argument not a traceback'' None None"]
  by (simp add: os_level_conditions_def class_eval frame_eval user_frame_not_traceback)

text \<open>
  C1 as stated excludes the instances of \<open>ReframeError\<close> only. An instance of a class
  that derives from \<open>ValueError\<close> and from \<open>TimeoutError\<close> is a \<open>ValueError\<close>
  and no \<open>ReframeError\<close>, its traceback here has framework frames only, and
  \<open>is_severe\<close> returns \<open>False\<close>: the test against \<open>soft_errors\<close> comes first.
\<close>

theorem type_value_error_severity_counterexample:
  "isinstance (Exc LateValue ''too late'' None None) [TypeError, ValueError]
   \<and> \<not> isinstance (Exc LateValue ''too late'' None None) [ReframeError]
   \<and> user_frame sample_env (Some LateValue) (Exc LateValue ''too late'' None None)
        (Traceback [runtime_frame, framework_frame]) = Inr None
   \<and> is_severe sample_env (Some LateValue) (Exc LateValue ''too late'' None None)
        (Traceback [runtime_frame, framework_frame]) = Inr False"
  by (simp add: is_severe_def user_frame_def soft_errors_def LateValue_def class_eval
        frame_eval)

subsection \<open>C5: the message of \<open>SpawnedProcessError\<close>\<close>

text \<open>
  C5, as the code has it. The message is a header line that names the command and the
  exit code, then the line \<open>=== STDOUT ===\<close>, always, followed by the captured output
  only if that is not empty, then the line \<open>=== STDERR ===\<close>, always, followed by the
  captured error output only if that is not empty; the lines are joined by newlines.
\<close>

theorem spawned_message_sections:
  "message (sp_exc (SpawnedProcessError_init args stdout stderr exitcode))
   = Some (join ''\<newline>''
       ([''command '' @ [CHR 0x27]
           @ sp_command (SpawnedProcessError_init args stdout stderr exitcode) @ [CHR 0x27]
           @ '' failed with exit code '' @ str_exitcode exitcode @ '':'']
        @ [''=== STDOUT ===''] @ (if stdout = [] then [] else [stdout])
        @ [''=== STDERR ===''] @ (if stderr = [] then [] else [stderr])))
   \<and> sp_command (SpawnedProcessError_init args stdout stderr exitcode)
     = (case args of ArgStr s \<Rightarrow> s | ArgList ws \<Rightarrow> join '' '' ws)"
  by (simp add: SpawnedProcessError_init_def spawned_lines_def Let_def)

theorem spawned_message_sections_witness:
  "message (sp_exc (SpawnedProcessError_init (ArgList [''ls'', ''-l'']) ''total 0''
                      ''not found'' (Some 2)))
   = Some (''command 'ls -l' failed with exit code 2:\<newline>=== STDOUT ===\<newline>total 0''
           @ ''\<newline>=== STDERR ===\<newline>not found'')"
  using spawned_message_sections [of "ArgList [''ls'', ''-l'']" "''total 0''"
      "''not found''" "Some 2"]
  by (simp add: SpawnedProcessError_init_def str_exitcode_def str_int_def str_nat.simps)

text \<open>
  C5 as stated has the \<open>=== STDOUT ===\<close> section only if the captured output is not
  empty. With an empty output the line is in the message all the same.
\<close>

theorem spawned_stdout_header_counterexample:
  "''=== STDOUT ==='' \<in> set (spawned_lines ''ls -l'' [] ''not found'' (Some 2))
   \<and> message (sp_exc (SpawnedProcessError_init (ArgStr ''ls -l'') [] ''not found'' (Some 2)))
     = Some (''command 'ls -l' failed with exit code 2:\<newline>=== STDOUT ===''
             @ ''\<newline>=== STDERR ===\<newline>not found'')"
  by (simp add: SpawnedProcessError_init_def spawned_lines_def Let_def str_exitcode_def
        str_int_def str_nat.simps)

subsection \<open>C6: the message of \<open>BuildError\<close>\<close>

text \<open>
  C6. For every pair of paths, the message of a \<open>BuildError\<close> is made of the two
  paths alone, the one of the standard error first and the one of the standard output
  second, each between a backquote and an apostrophe; the constructor takes no message.
  The error renders as this message.
\<close>

theorem build_error_message:
  "message (BuildError_init stdout stderr)
     = Some (''standard error can be found in `'' @ stderr @ [CHR 0x27]
             @ '', standard output can be found in `'' @ stdout @ [CHR 0x27])
   \<and> str_exc (BuildError_init stdout stderr)
     = ''standard error can be found in `'' @ stderr @ [CHR 0x27]
       @ '', standard output can be found in `'' @ stdout @ [CHR 0x27]
   \<and> exc_class (BuildError_init stdout stderr) = BuildError
   \<and> cause (BuildError_init stdout stderr) = None"
  by (simp add: BuildError_init_def class_eval or_empty_def)

theorem build_error_message_witness:
  "str_exc (BuildError_init ''out.txt'' ''err.txt'')
   = ''standard error can be found in `err.txt', standard output can be found in `out.txt''
     @ [CHR 0x27]"
  using build_error_message [of "''out.txt''" "''err.txt''"]
  by simp

subsection \<open>C8: the level of a deprecation warning\<close>

text \<open>
  C8 asks that the notice be attributed to the first frame, from the emission point
  outwards, that is not a frame of the framework, and the docstring of
  \<open>user_deprecation_warning\<close> says the same: the warning is raised at the stack frame
  that is outside the \<open>reframe\<close> base module. The code does otherwise on two stacks.

  A caller in the module \<open>reframe_ext.plugin\<close> is outside the \<open>reframe\<close> base module,
  but the loop tests the module's name with \<open>startswith('reframe')\<close> and counts the
  frame as one of the framework: the level is 3 and the notice goes to the frame behind
  the caller.

  When a module of the framework warns while another module of the framework imports
  it, the first frame outside the framework is a frame of the import machinery, where
  the loop stops with level 3. \<open>warnings.warn\<close> does not count frames of the import
  machinery, so the notice goes to the importing frame, a frame of the framework.
\<close>

theorem deprecation_not_at_first_outside_frame:
  "reframe_base_module warnings_frame
   \<and> \<not> reframe_base_module plugin_frame
   \<and> stacklevel (user_deprecation_warning ''old syntax''
        [warnings_frame, plugin_frame, main_frame]) = 3
   \<and> warn_frame [warnings_frame, plugin_frame, main_frame] 3 = Some main_frame
   \<and> reframe_base_module imported_frame
   \<and> \<not> reframe_base_module bootstrap_frame
   \<and> stacklevel (user_deprecation_warning ''old syntax''
        [warnings_frame, imported_frame, bootstrap_frame, bootstrap_external_frame,
         bootstrap_frame, framework_frame, caller_frame, main_frame]) = 3
   \<and> warn_frame [warnings_frame, imported_frame, bootstrap_frame, bootstrap_external_frame,
                  bootstrap_frame, framework_frame, caller_frame, main_frame] 3
       = Some framework_frame
   \<and> reframe_base_module framework_frame"
  by (simp add: user_deprecation_warning_def warn_frame_def frame_eval eval_nat_numeral)

subsection \<open>C9: the description of a keyboard interrupt\<close>

text \<open>
  C9, as the code has it. For every instance of \<open>KeyboardInterrupt\<close> passed with its
  class and with a trace on which \<open>user_frame\<close> returns (a traceback, for one, in which
  the path of every frame can be computed), \<open>what\<close> returns exactly
  \<open>cancelled by user\<close>: no name of the class before it and no message after it.
\<close>

theorem what_keyboard_interrupt:
  "(isinstance ev [KeyboardInterrupt] \<and> user_frame env (Some t) ev tb = Inr frame
      \<longrightarrow> what env (Some t) ev tb = Inr ''cancelled by user'')
   \<and> (isinstance ev [KeyboardInterrupt]
        \<and> (\<forall>g\<in>set fs. framework_file env g \<or> outside_file env g)
      \<longrightarrow> what env (Some t) ev (Traceback fs) = Inr ''cancelled by user'')"
proof (intro conjI impI)
  assume "isinstance ev [KeyboardInterrupt] \<and> user_frame env (Some t) ev tb = Inr frame"
  then show "what env (Some t) ev tb = Inr ''cancelled by user''"
    by (simp add: what_cancelled)
next
  assume h: "isinstance ev [KeyboardInterrupt]
             \<and> (\<forall>g\<in>set fs. framework_file env g \<or> outside_file env g)"
  then obtain r where "user_frame env (Some t) ev (Traceback fs) = Inr r"
    using user_frame_returns [of fs env "Some t" ev] by blast
  with h show "what env (Some t) ev (Traceback fs) = Inr ''cancelled by user''"
    by (simp add: what_cancelled)
qed

theorem what_keyboard_interrupt_witness:
  "isinstance (Exc KeyboardInterrupt ''stop'' None None) [KeyboardInterrupt]
   \<and> user_frame sample_env (Some KeyboardInterrupt) (Exc KeyboardInterrupt ''stop'' None None)
        (Traceback [main_frame, framework_frame]) = Inr (Some main_frame)
   \<and> outside_file sample_env main_frame
   \<and> framework_file sample_env framework_frame
   \<and> what sample_env (Some KeyboardInterrupt) (Exc KeyboardInterrupt ''stop'' None None)
        (Traceback [main_frame, framework_frame]) = Inr ''cancelled by user''"
  using what_keyboard_interrupt [of "Exc KeyboardInterrupt ''stop'' None None" sample_env
      KeyboardInterrupt "Traceback [main_frame, framework_frame]" "Some main_frame"
      "[main_frame, framework_frame]"]
  by (simp add: class_eval user_frame_def frame_eval)

text \<open>
  C9 as stated speaks of every instance. \<open>what\<close> asks \<open>user_frame\<close> for a frame before
  it looks at the class, so for a keyboard interrupt passed without a traceback (an
  instance that was never raised has none) it raises \<open>ValueError\<close>, and so it does for
  one raised from code compiled with an empty file name.
\<close>

theorem what_keyboard_interrupt_counterexample:
  "what sample_env (Some KeyboardInterrupt) (Exc KeyboardInterrupt [] None None) NotATraceback
   = Inl (Exc ValueError ''could not retrieve frame: argument not a traceback'' None None)
   \<and> what sample_env (Some KeyboardInterrupt) (Exc KeyboardInterrupt [] None None)
        (Traceback [main_frame, nameless_frame])
     = Inl (Exc ValueError ''no path specified'' None None)"
  by (simp add: what_def user_frame_def Let_def frame_eval)

end
